theory Spec2Isabelle
  imports Main "HOL-Library.Multiset" "HOL-Library.Word"
begin

text \<open>
  A model of \<open>main.py\<close>: the discovery of tar-gzip and zip archives, the extraction of
  the MIDI files of each archive by a worker, the collection of the workers' results
  into one table, the statistics over the table and its storage. Each function of the
  program is a function of the same name here; what the program reads from the file
  system and the libraries is a parameter (\<open>world\<close>), what it prints is a list of
  messages, and an exception that leaves a function is the value \<open>Inl e\<close>.
\<close>

section \<open>Strings and paths\<close>

text \<open>
  Python strings are modelled as \<open>string\<close>; a non-ASCII code point is a sequence of
  bytes above 127, which none of the functions below touches. A \<open>Path\<close> is the list of
  its components (\<open>Path.parts\<close>), the last one being \<open>Path.name\<close>.
\<close>

type_synonym path = "string list"

type_synonym bytes = "8 word list"

text \<open>A raised Python exception, carried as its message.\<close>

type_synonym exn = string

definition lower_char :: "char \<Rightarrow> char" where
  "lower_char c =
     (let n = (of_char c :: nat) in if 65 \<le> n \<and> n \<le> 90 then char_of (n + 32) else c)"

text \<open>\<^verbatim>\<open>str.lower()\<close>\<close>

definition lower :: "string \<Rightarrow> string" where
  "lower s = map lower_char s"

text \<open>\<^verbatim>\<open>s.endswith(ext)\<close>\<close>

definition endswith :: "string \<Rightarrow> string \<Rightarrow> bool" where
  "endswith s ext = (length ext \<le> length s \<and> drop (length s - length ext) s = ext)"

text \<open>\<^verbatim>\<open>s.startswith(p)\<close>\<close>

fun startswith :: "string \<Rightarrow> string \<Rightarrow> bool" where
  "startswith s [] = True"
| "startswith [] (p # ps) = False"
| "startswith (c # cs) (p # ps) = (c = p \<and> startswith cs ps)"

text \<open>
  \<^verbatim>\<open>s.replace(old, new)\<close>: one pass from the left, replacing every non-overlapping
  occurrence of \<open>old\<close>; the text put in place of an occurrence is not scanned again.
\<close>

function str_replace :: "string \<Rightarrow> string \<Rightarrow> string \<Rightarrow> string" where
  "str_replace s old new =
     (if old = [] then concat (map (\<lambda>c. new @ [c]) s) @ new
      else if s = [] then []
      else if startswith s old then new @ str_replace (drop (length old) s) old new
      else hd s # str_replace (tl s) old new)"
  by pat_completeness auto
termination
  by (relation "measure (\<lambda>(s, old, new). length s)") auto

declare str_replace.simps [simp del]

text \<open>\<^verbatim>\<open>s.rfind(c)\<close> for a single character: the last index of \<open>c\<close>, or \<open>-1\<close>.\<close>

definition rfind :: "string \<Rightarrow> char \<Rightarrow> int" where
  "rfind s c =
     (if c \<in> set s then int (length s) - 1 - int (length (takeWhile (\<lambda>x. x \<noteq> c) (rev s)))
      else - 1)"

text \<open>\<^verbatim>\<open>Path.name\<close>: the final component, empty for a path without components.\<close>

definition name :: "path \<Rightarrow> string" where
  "name p = (if p = [] then [] else last p)"

text \<open>
  \<^verbatim>\<open>Path.suffix\<close> and \<^verbatim>\<open>Path.stem\<close> of pathlib: with \<open>i = name.rfind('.')\<close>, the
  suffix is \<open>name[i:]\<close> and the stem \<open>name[:i]\<close> when \<open>0 < i < len(name) - 1\<close>; otherwise
  the suffix is empty and the stem is the whole name.
\<close>

definition suffix :: "path \<Rightarrow> string" where
  "suffix p =
     (let i = rfind (name p) (CHR ''.'')
      in if 0 < i \<and> i < int (length (name p)) - 1 then drop (nat i) (name p) else [])"

definition stem :: "path \<Rightarrow> string" where
  "stem p =
     (let i = rfind (name p) (CHR ''.'')
      in if 0 < i \<and> i < int (length (name p)) - 1 then take (nat i) (name p) else name p)"

text \<open>\<^verbatim>\<open>os.path.basename(p)\<close> of posixpath: \<open>p[p.rfind('/') + 1:]\<close>.\<close>

definition basename :: "string \<Rightarrow> string" where
  "basename p = drop (nat (rfind p (CHR ''/'') + 1)) p"

section \<open>Group of an archive\<close>

text \<open>
  \<^verbatim>\<open>group = tar_path.stem.replace('.tar', '')\<close> (\<open>extract_midi_from_tar\<close>) and
  \<^verbatim>\<open>group = zip_path.stem\<close> (\<open>extract_midi_from_zip\<close>).
\<close>

definition tar_group :: "path \<Rightarrow> string" where
  "tar_group tar_path = str_replace (stem tar_path) ''.tar'' ''''"

definition zip_group :: "path \<Rightarrow> string" where
  "zip_group zip_path = stem zip_path"

section \<open>Size categories\<close>

definition get_size_category :: "int \<Rightarrow> string" where
  "get_size_category size_bytes =
     (if size_bytes < 1024 then ''< 1KB''
      else if size_bytes < 10 * 1024 then ''1KB - 10KB''
      else if size_bytes < 100 * 1024 then ''10KB - 100KB''
      else if size_bytes < 1024 * 1024 then ''100KB - 1MB''
      else ''> 1MB'')"

section \<open>Console output\<close>

text \<open>
  Every \<^verbatim>\<open>print\<close> of the program is one message, carrying the values its f-string
  interpolates; the fixed (Chinese) wording is left out.
\<close>

datatype log_msg =
    WarnCannotRead path string exn
  | ErrCannotOpenTar path exn
  | ErrCannotOpenZip path exn
  | InfoUsingProcesses int nat
  | ErrProcessing path exn
  | WarnNoMidiFiles
  | NoDataToSave
  | SavingTo path
  | SavedRecords nat path
  | ErrInputDirMissing path
  | ErrNotADirectory path
  | SearchingDir path
  | NoArchivesFound path
  | FoundArchives nat
  | NoMidiFound
  | TotalMidiFound nat
  | GroupStatistics "(string \<times> nat \<times> int) set"
  | SizeDistribution "(string \<times> nat) set"
  | DetailedStatistics nat int int int int

section \<open>Archives as the libraries present them\<close>

text \<open>
  A member of an opened tar file: \<^verbatim>\<open>member.name\<close>, \<^verbatim>\<open>member.isfile()\<close>, and what
  \<^verbatim>\<open>tar.extractfile(member)\<close> does: it raises, returns \<^verbatim>\<open>None\<close>, or returns a file
  object, given here by what its \<^verbatim>\<open>read()\<close> does (raises, or returns the bytes).
\<close>

record tar_member =
  tarinfo_name :: string
  isfile :: bool
  extractfile :: "exn + (exn + bytes) option"

text \<open>
  An entry of an opened zip file: \<^verbatim>\<open>file_info.filename\<close>, \<^verbatim>\<open>file_info.is_dir()\<close>, and
  what \<^verbatim>\<open>zip_file.read(file_info)\<close> does.
\<close>

record zip_info =
  filename :: string
  is_dir :: bool
  zip_read :: "exn + bytes"

text \<open>The tuple \<^verbatim>\<open>(group, file_name, content, file_size)\<close> a worker returns.\<close>

type_synonym file_tuple = "string \<times> string \<times> bytes \<times> int"

text \<open>A row of the DataFrame, built from the dict of \<open>process_archives\<close>: the columns
  \<open>group\<close>, \<open>file_name\<close>, \<open>content\<close> and \<open>file_size\<close>.\<close>

record midi_row =
  group_col :: string
  file_name_col :: string
  content_col :: bytes
  file_size_col :: int

type_synonym table = "midi_row list"

text \<open>
  What the program reads from its surroundings. \<open>tarfile_open\<close> is
  \<^verbatim>\<open>tarfile.open(p, 'r:gz')\<close> followed by \<^verbatim>\<open>tar.getmembers()\<close>, either of which may
  raise; \<open>zipfile_open\<close> is \<^verbatim>\<open>zipfile.ZipFile(p, 'r')\<close> with its \<^verbatim>\<open>infolist()\<close>;
  \<open>glob_recursive d pat\<close> is \<^verbatim>\<open>glob.glob(os.path.join(d, pat), recursive=True)\<close>;
  \<open>future_failure\<close> is a failure of the process pool itself for the task of an archive
  (what \<^verbatim>\<open>future.result()\<close> raises although the worker function raised nothing);
  \<open>encode_failure s\<close> is what \<^verbatim>\<open>pl.DataFrame\<close> raises for a string it cannot store
  (\<^verbatim>\<open>UnicodeEncodeError\<close> for a name that is not valid UTF-8);
  \<open>mkdir_failure\<close> and \<open>write_failure\<close> are what \<^verbatim>\<open>mkdir\<close> and \<^verbatim>\<open>write_parquet\<close>
  raise for an output path. Only subclasses of \<^verbatim>\<open>Exception\<close> are raised:
  an interrupt from outside is not part of the model.
\<close>

record world =
  tarfile_open :: "path \<Rightarrow> exn + (exn + tar_member list)"
  zipfile_open :: "path \<Rightarrow> exn + zip_info list"
  glob_recursive :: "path \<Rightarrow> string \<Rightarrow> path list"
  path_exists :: "path \<Rightarrow> bool"
  path_is_dir :: "path \<Rightarrow> bool"
  cpu_count :: int
  future_failure :: "path \<Rightarrow> exn option"
  encode_failure :: "string \<Rightarrow> exn option"
  mkdir_failure :: "path \<Rightarrow> exn option"
  write_failure :: "path \<Rightarrow> exn option"

text \<open>The part of the file system the program writes.\<close>

record disk =
  directories :: "path set"
  artifacts :: "path \<rightharpoonup> table"

section \<open>Discovery\<close>


section \<open>Extraction\<close>

text \<open>\<^verbatim>\<open>any(file_name.lower().endswith(ext) for ext in ['.mid', '.midi'])\<close>\<close>

definition is_midi_name :: "string \<Rightarrow> bool" where
  "is_midi_name file_name = list_ex (\<lambda>ext. endswith (lower file_name) ext) [''.mid'', ''.midi'']"

text \<open>
  The body of the inner \<^verbatim>\<open>try\<close> of \<open>extract_midi_from_tar\<close> up to the read:
  \<open>Inl e\<close> when \<^verbatim>\<open>extractfile\<close> or \<^verbatim>\<open>read\<close> raises, \<open>Inr None\<close> when the file object
  is falsy, \<open>Inr (Some content)\<close> otherwise.
\<close>

definition tar_read_member :: "tar_member \<Rightarrow> exn + bytes option" where
  "tar_read_member member =
     (case extractfile member of
        Inl e \<Rightarrow> Inl e
      | Inr None \<Rightarrow> Inr None
      | Inr (Some file_obj) \<Rightarrow>
          (case file_obj of Inl e \<Rightarrow> Inl e | Inr content \<Rightarrow> Inr (Some content)))"

text \<open>
  The \<^verbatim>\<open>for member in tar.getmembers()\<close> loop; the state is the list \<open>results\<close> and
  the console output so far.
\<close>

fun tar_members_loop ::
  "string \<Rightarrow> path \<Rightarrow> tar_member list \<Rightarrow> file_tuple list \<times> log_msg list
     \<Rightarrow> file_tuple list \<times> log_msg list" where
  "tar_members_loop grp tar_path [] (results, out) = (results, out)"
| "tar_members_loop grp tar_path (member # rest) (results, out) =
     tar_members_loop grp tar_path rest
       (if isfile member then
          (let file_name = tarinfo_name member in
           if is_midi_name file_name then
             (case tar_read_member member of
                Inr (Some content) \<Rightarrow>
                  (let file_size = int (length content)
                   in (results @ [(grp, basename file_name, content, file_size)], out))
              | Inr None \<Rightarrow> (results, out)
              | Inl e \<Rightarrow> (results, out @ [WarnCannotRead tar_path file_name e]))
           else (results, out))
        else (results, out))"

text \<open>
  The body of the outer \<^verbatim>\<open>try\<close>: \<open>Inl e\<close> when an exception leaves it, otherwise the
  list \<open>results\<close> and the output after the loop. Nothing in the loop raises outside
  the inner \<^verbatim>\<open>try\<close>, so an exception leaves the body only from \<^verbatim>\<open>tarfile.open\<close> and
  \<^verbatim>\<open>getmembers\<close>, with \<open>results\<close> still as it was.
\<close>

definition tar_try_body ::
  "world \<Rightarrow> path \<Rightarrow> string \<Rightarrow> file_tuple list
     \<Rightarrow> exn + file_tuple list \<times> log_msg list" where
  "tar_try_body w tar_path grp results =
     (case tarfile_open w tar_path of
        Inl e \<Rightarrow> Inl e
      | Inr tar \<Rightarrow>
          (case tar of
             Inl e \<Rightarrow> Inl e
           | Inr members \<Rightarrow> Inr (tar_members_loop grp tar_path members (results, []))))"

text \<open>
  The first component of the result of a function is \<open>Inr v\<close> when the function returns
  \<open>v\<close> and \<open>Inl e\<close> when the exception \<open>e\<close> leaves it; the second is what it printed.
\<close>

definition extract_midi_from_tar ::
  "world \<Rightarrow> path \<Rightarrow> (exn + file_tuple list) \<times> log_msg list" where
  "extract_midi_from_tar w tar_path =
     (let grp = tar_group tar_path; results = [] in
      case tar_try_body w tar_path grp results of
        Inr (results, out) \<Rightarrow> (Inr results, out)
      | Inl e \<Rightarrow> (Inr results, [ErrCannotOpenTar tar_path e]))"

fun zip_infolist_loop ::
  "string \<Rightarrow> path \<Rightarrow> zip_info list \<Rightarrow> file_tuple list \<times> log_msg list
     \<Rightarrow> file_tuple list \<times> log_msg list" where
  "zip_infolist_loop grp zip_path [] (results, out) = (results, out)"
| "zip_infolist_loop grp zip_path (file_info # rest) (results, out) =
     zip_infolist_loop grp zip_path rest
       (if \<not> is_dir file_info then
          (let file_name = filename file_info in
           if is_midi_name file_name then
             (case zip_read file_info of
                Inr content \<Rightarrow>
                  (let file_size = int (length content)
                   in (results @ [(grp, basename file_name, content, file_size)], out))
              | Inl e \<Rightarrow> (results, out @ [WarnCannotRead zip_path file_name e]))
           else (results, out))
        else (results, out))"

definition zip_try_body ::
  "world \<Rightarrow> path \<Rightarrow> string \<Rightarrow> file_tuple list
     \<Rightarrow> exn + file_tuple list \<times> log_msg list" where
  "zip_try_body w zip_path grp results =
     (case zipfile_open w zip_path of
        Inl e \<Rightarrow> Inl e
      | Inr infolist \<Rightarrow> Inr (zip_infolist_loop grp zip_path infolist (results, [])))"

definition extract_midi_from_zip ::
  "world \<Rightarrow> path \<Rightarrow> (exn + file_tuple list) \<times> log_msg list" where
  "extract_midi_from_zip w zip_path =
     (let grp = zip_group zip_path; results = [] in
      case zip_try_body w zip_path grp results of
        Inr (results, out) \<Rightarrow> (Inr results, out)
      | Inl e \<Rightarrow> (Inr results, [ErrCannotOpenZip zip_path e]))"

definition process_single_archive ::
  "world \<Rightarrow> path \<Rightarrow> (exn + file_tuple list) \<times> log_msg list" where
  "process_single_archive w archive =
     (if lower (suffix archive) = ''.zip'' then extract_midi_from_zip w archive
      else if endswith (lower (name archive)) ''.tar.gz'' then extract_midi_from_tar w archive
      else (Inr [], []))"

section \<open>Scheduling and aggregation\<close>

text \<open>
  The pool size handed to \<^verbatim>\<open>ProcessPoolExecutor\<close>:
  \<^verbatim>\<open>if max_workers is None: max_workers = min(mp.cpu_count(), len(archives))\<close>.
\<close>

definition effective_max_workers :: "world \<Rightarrow> path list \<Rightarrow> int option \<Rightarrow> int" where
  "effective_max_workers w archives max_workers =
     (case max_workers of
        None \<Rightarrow> min (cpu_count w) (int (length archives))
      | Some n \<Rightarrow> n)"

text \<open>
  \<^verbatim>\<open>future.result()\<close> for the task of one archive: it returns what the worker returned
  and raises what the worker raised, unless the pool failed for that task. What the
  worker prints goes to the worker's own output.
\<close>

definition future_result :: "world \<Rightarrow> path \<Rightarrow> exn + file_tuple list" where
  "future_result w archive =
     (case future_failure w archive of
        Some e \<Rightarrow> Inl e
      | None \<Rightarrow> fst (process_single_archive w archive))"

text \<open>The dict appended to \<open>data\<close> for one tuple.\<close>

definition row_of_tuple :: "file_tuple \<Rightarrow> midi_row" where
  "row_of_tuple t =
     (case t of (grp, file_name, content, file_size) \<Rightarrow>
        \<lparr>group_col = grp, file_name_col = file_name, content_col = content,
         file_size_col = file_size\<rparr>)"

text \<open>
  The \<^verbatim>\<open>for future in as_completed(...)\<close> loop, over the archives in the order their
  futures complete; the state is \<open>data\<close> and the console output.
\<close>

fun collect_loop ::
  "world \<Rightarrow> path list \<Rightarrow> table \<times> log_msg list \<Rightarrow> table \<times> log_msg list" where
  "collect_loop w [] (data, out) = (data, out)"
| "collect_loop w (archive # rest) (data, out) =
     collect_loop w rest
       (case future_result w archive of
          Inr results \<Rightarrow> (data @ map row_of_tuple results, out)
        | Inl e \<Rightarrow> (data, out @ [ErrProcessing archive e]))"

text \<open>
  \<^verbatim>\<open>pl.DataFrame(data)\<close>: the rows of \<open>data\<close>, unless a string of the \<open>group\<close> or the
  \<open>file_name\<close> column cannot be stored; the exception is then that of the first such
  string, the columns taken in this order.
\<close>

definition DataFrame :: "world \<Rightarrow> table \<Rightarrow> exn + table" where
  "DataFrame w data =
     (case List.map_filter (encode_failure w) (map group_col data @ map file_name_col data) of
        [] \<Rightarrow> Inr data
      | e # es \<Rightarrow> Inl e)"

text \<open>
  \<open>completed\<close> is the order in which \<^verbatim>\<open>as_completed\<close> yields the futures of this run, each
  named by its archive. \<^verbatim>\<open>ProcessPoolExecutor\<close> raises \<^verbatim>\<open>ValueError\<close> for a pool size
  that is not positive, and nothing in \<open>process_archives\<close> catches it, nor what
  \<^verbatim>\<open>pl.DataFrame(data)\<close> raises.
\<close>

definition process_archives ::
  "world \<Rightarrow> path list \<Rightarrow> path list \<Rightarrow> int option \<Rightarrow> (exn + table) \<times> log_msg list" where
  "process_archives w archives completed max_workers_arg =
     (let data = [];
          max_workers = effective_max_workers w archives max_workers_arg;
          out = [InfoUsingProcesses max_workers (length archives)]
      in if max_workers \<le> 0 then (Inl ''max_workers must be greater than 0'', out)
         else
           (case collect_loop w completed (data, out) of
              (data, out) \<Rightarrow>
                if data = [] then (Inr [], out @ [WarnNoMidiFiles])
                else (DataFrame w data, out)))"

section \<open>Statistics\<close>









section \<open>Persistence\<close>

text \<open>\<^verbatim>\<open>Path.parent\<close>\<close>

definition parent :: "path \<Rightarrow> path" where
  "parent p = butlast p"

text \<open>
  \<^verbatim>\<open>p.mkdir(parents=True, exist_ok=True)\<close>: the directory and every missing ancestor.
\<close>

definition mkdir_parents :: "world \<Rightarrow> path \<Rightarrow> disk \<Rightarrow> exn + disk" where
  "mkdir_parents w p d =
     (case mkdir_failure w p of
        Some e \<Rightarrow> Inl e
      | None \<Rightarrow>
          Inr (d\<lparr>directories := directories d \<union> set (map (\<lambda>n. take n p) [1..<Suc (length p)])\<rparr>))"

text \<open>
  \<^verbatim>\<open>df.write_parquet(output_path, ..., partition_by='group')\<close>: the artifact at
  \<open>output_path\<close> holds the rows of \<open>df\<close>; its layout on disk is not modelled.
\<close>

definition write_parquet :: "world \<Rightarrow> table \<Rightarrow> path \<Rightarrow> disk \<Rightarrow> exn + disk" where
  "write_parquet w df output_path d =
     (case write_failure w output_path of
        Some e \<Rightarrow> Inl e
      | None \<Rightarrow> Inr (d\<lparr>artifacts := (artifacts d)(output_path \<mapsto> df)\<rparr>))"

text \<open>
  The result is \<open>Inl e\<close> when an exception leaves the function, with the disk and the
  output as they were at that point.
\<close>

definition save_to_parquet ::
  "world \<Rightarrow> table \<Rightarrow> path \<Rightarrow> disk \<Rightarrow> (exn + unit) \<times> disk \<times> log_msg list" where
  "save_to_parquet w df output_path d =
     (if length df = 0 then (Inr (), d, [NoDataToSave])
      else
        (case mkdir_parents w (parent output_path) d of
           Inl e \<Rightarrow> (Inl e, d, [])
         | Inr d1 \<Rightarrow>
             (case write_parquet w df output_path d1 of
                Inl e \<Rightarrow> (Inl e, d1, [SavingTo output_path])
              | Inr d2 \<Rightarrow>
                  (Inr (), d2, [SavingTo output_path, SavedRecords (length df) output_path]))))"

section \<open>The program\<close>




section \<open>What one entry and one task contribute\<close>

text \<open>
  The tuples and the messages that one pass of a loop body adds, as functions of the
  entry alone; the loops are shown below to append exactly these.
\<close>

definition tar_member_tuples :: "string \<Rightarrow> tar_member \<Rightarrow> file_tuple list" where
  "tar_member_tuples grp member =
     (if isfile member \<and> is_midi_name (tarinfo_name member) then
        (case tar_read_member member of
           Inr (Some content) \<Rightarrow>
             [(grp, basename (tarinfo_name member), content, int (length content))]
         | _ \<Rightarrow> [])
      else [])"

definition tar_member_output :: "path \<Rightarrow> tar_member \<Rightarrow> log_msg list" where
  "tar_member_output tar_path member =
     (if isfile member \<and> is_midi_name (tarinfo_name member) then
        (case tar_read_member member of
           Inl e \<Rightarrow> [WarnCannotRead tar_path (tarinfo_name member) e]
         | _ \<Rightarrow> [])
      else [])"

definition zip_entry_tuples :: "string \<Rightarrow> zip_info \<Rightarrow> file_tuple list" where
  "zip_entry_tuples grp file_info =
     (if \<not> is_dir file_info \<and> is_midi_name (filename file_info) then
        (case zip_read file_info of
           Inr content \<Rightarrow>
             [(grp, basename (filename file_info), content, int (length content))]
         | Inl e \<Rightarrow> [])
      else [])"

definition zip_entry_output :: "path \<Rightarrow> zip_info \<Rightarrow> log_msg list" where
  "zip_entry_output zip_path file_info =
     (if \<not> is_dir file_info \<and> is_midi_name (filename file_info) then
        (case zip_read file_info of
           Inl e \<Rightarrow> [WarnCannotRead zip_path (filename file_info) e]
         | Inr content \<Rightarrow> [])
      else [])"



definition task_rows :: "world \<Rightarrow> path \<Rightarrow> table" where
  "task_rows w archive =
     (case future_result w archive of Inr results \<Rightarrow> map row_of_tuple results | Inl e \<Rightarrow> [])"

definition task_output :: "world \<Rightarrow> path \<Rightarrow> log_msg list" where
  "task_output w archive =
     (case future_result w archive of Inr results \<Rightarrow> [] | Inl e \<Rightarrow> [ErrProcessing archive e])"

section \<open>A concrete run\<close>

text \<open>
  A directory \<open>data\<close> holding \<open>a.zip\<close> and \<open>b.tar.gz\<close>, an empty directory
  \<open>empty\<close>, a directory \<open>plain\<close> whose only archive cannot be opened, and a plain file
  \<open>notes.txt\<close>; further archives, some of them damaged, can be opened by path.
\<close>

definition midi_header :: bytes where
  "midi_header = [77, 84, 104, 100]"

definition example_tar_members :: "tar_member list" where
  "example_tar_members =
     [\<lparr>tarinfo_name = ''songs'', isfile = False, extractfile = Inr None\<rparr>,
      \<lparr>tarinfo_name = ''songs/tune.midi'', isfile = True,
        extractfile = Inr (Some (Inr midi_header))\<rparr>,
      \<lparr>tarinfo_name = ''songs/readme.txt'', isfile = True,
        extractfile = Inr (Some (Inr [104, 105]))\<rparr>,
      \<lparr>tarinfo_name = ''LOUD.MID'', isfile = True,
        extractfile = Inr (Some (Inr [77, 84]))\<rparr>]"

definition damaged_tar_members :: "tar_member list" where
  "damaged_tar_members =
     [\<lparr>tarinfo_name = ''one.mid'', isfile = True, extractfile = Inr (Some (Inr [1]))\<rparr>,
      \<lparr>tarinfo_name = ''torn.mid'', isfile = True,
        extractfile = Inr (Some (Inl ''unexpected end of data''))\<rparr>,
      \<lparr>tarinfo_name = ''ghost.mid'', isfile = True, extractfile = Inr None\<rparr>,
      \<lparr>tarinfo_name = ''two.mid'', isfile = True, extractfile = Inr (Some (Inr [2, 2]))\<rparr>]"

definition example_zip_infolist :: "zip_info list" where
  "example_zip_infolist =
     [\<lparr>filename = ''album/'', is_dir = True, zip_read = Inr []\<rparr>,
      \<lparr>filename = ''album/song.mid'', is_dir = False, zip_read = Inr midi_header\<rparr>,
      \<lparr>filename = ''album/cover.png'', is_dir = False, zip_read = Inr [137]\<rparr>]"

definition damaged_zip_infolist :: "zip_info list" where
  "damaged_zip_infolist =
     [\<lparr>filename = ''first.mid'', is_dir = False, zip_read = Inr [1]\<rparr>,
      \<lparr>filename = ''bad.midi'', is_dir = False, zip_read = Inl ''bad CRC-32''\<rparr>,
      \<lparr>filename = ''last.mid'', is_dir = False, zip_read = Inr [3, 3, 3]\<rparr>]"

definition example_world :: world where
  "example_world =
     \<lparr>tarfile_open = (\<lambda>p.
         if p = [''data'', ''b.tar.gz''] then Inr (Inr example_tar_members)
         else if p = [''data'', ''c.tar.gz''] then Inr (Inr damaged_tar_members)
         else if p = [''data'', ''cut.tar.gz''] then Inr (Inl ''unexpected end of data'')
         else Inl ''not a gzip file''),
       zipfile_open = (\<lambda>p.
         if p = [''data'', ''a.zip''] then Inr example_zip_infolist
         else if p = [''data'', ''d.zip''] then Inr damaged_zip_infolist
         else Inl ''File is not a zip file''),
       glob_recursive = (\<lambda>d pat.
         if d = [''data''] \<and> pat = ''**/*.tar.gz'' then [[''data'', ''b.tar.gz'']]
         else if d = [''data''] \<and> pat = ''**/*.zip'' then [[''data'', ''a.zip'']]
         else if d = [''plain''] \<and> pat = ''**/*.zip'' then [[''plain'', ''broken.zip'']]
         else []),
       path_exists = (\<lambda>p. p = [''data''] \<or> p = [''empty''] \<or> p = [''plain''] \<or>
                        p = [''notes.txt'']),
       path_is_dir = (\<lambda>p. p = [''data''] \<or> p = [''empty''] \<or> p = [''plain'']),
       cpu_count = 8,
       future_failure = (\<lambda>p. None),
       encode_failure = (\<lambda>s. None),
       mkdir_failure = (\<lambda>p. None),
       write_failure = (\<lambda>p. None)\<rparr>"





definition empty_disk :: disk where
  "empty_disk = \<lparr>directories = {}, artifacts = Map.empty\<rparr>"

definition example_row :: midi_row where
  "example_row =
     \<lparr>group_col = ''a'', file_name_col = ''song.mid'', content_col = midi_header,
      file_size_col = 4\<rparr>"

section \<open>Strings and paths: lemmas\<close>

lemma endswith_iff: "endswith s ext \<longleftrightarrow> (\<exists>pre. s = pre @ ext)"
proof
  assume "endswith s ext"
  then have "s = take (length s - length ext) s @ ext"
    unfolding endswith_def by (metis append_take_drop_id)
  then show "\<exists>pre. s = pre @ ext" ..
next
  assume "\<exists>pre. s = pre @ ext"
  then show "endswith s ext" by (auto simp: endswith_def)
qed

lemma rfind_append_notin:
  assumes "c \<notin> set f"
  shows "rfind (d @ c # f) c = int (length d)"
proof -
  have "takeWhile (\<lambda>x. x \<noteq> c) (rev f @ c # rev d) = rev f"
    using assms by (auto simp: takeWhile_tail)
  then show ?thesis by (simp add: rfind_def)
qed



lemma stem_dot:
  assumes "x \<noteq> []" "e \<noteq> []" "CHR ''.'' \<notin> set e"
  shows "stem (dir @ [x @ CHR ''.'' # e]) = x"
  using assms by (simp add: stem_def name_def rfind_append_notin Let_def)

lemma suffix_dot:
  assumes "x \<noteq> []" "e \<noteq> []" "CHR ''.'' \<notin> set e"
  shows "suffix (dir @ [x @ CHR ''.'' # e]) = CHR ''.'' # e"
  using assms by (simp add: suffix_def name_def rfind_append_notin Let_def)

lemma zip_group_strip: "x \<noteq> [] \<Longrightarrow> zip_group (dir @ [x @ ''.zip'']) = x"
  using stem_dot [of x "''zip''" dir] by (simp add: zip_group_def)

lemma tar_stem: "stem (dir @ [x @ ''.tar.gz'']) = x @ ''.tar''"
  using stem_dot [of "x @ ''.tar''" "''gz''" dir] by simp

lemma startswith_iff: "startswith s p \<longleftrightarrow> (\<exists>r. s = p @ r)"
  by (induction s p rule: startswith.induct) auto


lemma not_startswith_tar:
  assumes "\<not> (\<exists>a b. c # cs = a @ ''.tar'' @ b)"
  shows "\<not> startswith ((c # cs) @ ''.tar'') ''.tar''"
proof
  assume sw: "startswith ((c # cs) @ ''.tar'') ''.tar''"
  show False
  proof (cases cs)
    case Nil
    with sw show False by simp
  next
    case (Cons x xs)
    note cs = this
    show False
    proof (cases xs)
      case Nil
      with sw cs show False by simp
    next
      case (Cons y ys)
      note xs = this
      show False
      proof (cases ys)
        case Nil
        with sw cs xs show False by simp
      next
        case (Cons z zs)
        with sw cs xs have "c # cs = [] @ ''.tar'' @ zs" by simp
        with assms show False by blast
      qed
    qed
  qed
qed

lemma str_replace_tar_suffix:
  assumes "\<not> (\<exists>a b. x = a @ ''.tar'' @ b)"
  shows "str_replace (x @ ''.tar'') ''.tar'' [] = x"
  using assms
proof (induction x)
  case Nil
  have "str_replace [] ''.tar'' [] = []" by (subst str_replace.simps) simp
  then show ?case by (subst str_replace.simps) simp
next
  case (Cons c cs)
  have ns: "\<not> startswith ((c # cs) @ ''.tar'') ''.tar''"
    using Cons.prems by (rule not_startswith_tar)
  have "\<not> (\<exists>a b. cs = a @ ''.tar'' @ b)"
    using Cons.prems by (metis append_Cons)
  then have "str_replace (cs @ ''.tar'') ''.tar'' [] = cs" by (rule Cons.IH)
  with ns show ?case by (subst str_replace.simps) auto
qed

lemma tar_group_strip:
  assumes "\<not> (\<exists>a b. x = a @ ''.tar'' @ b)"
  shows "tar_group (dir @ [x @ ''.tar.gz'']) = x"
  using str_replace_tar_suffix [OF assms] by (simp add: tar_group_def tar_stem)

lemma tar_group_general:
  "tar_group (dir @ [x @ ''.tar.gz'']) = str_replace (x @ ''.tar'') ''.tar'' []"
  by (simp add: tar_group_def tar_stem)



lemma lower_append: "lower (a @ b) = lower a @ lower b"
  by (simp add: lower_def)

lemma lower_archive_suffixes:
  "lower ''.zip'' = ''.zip''" "lower ''.gz'' = ''.gz''" "lower ''.tar.gz'' = ''.tar.gz''"
  by code_simp+

section \<open>The loops append the contributions\<close>

lemma tar_members_loop_concat:
  "tar_members_loop grp p ms (rs, out) =
     (rs @ concat (map (tar_member_tuples grp) ms), out @ concat (map (tar_member_output p) ms))"
proof (induction ms arbitrary: rs out)
  case Nil
  show ?case by simp
next
  case (Cons m ms)
  show ?case
    by (simp add: Cons.IH tar_member_tuples_def tar_member_output_def Let_def
        split: sum.splits option.splits)
qed

lemma zip_infolist_loop_concat:
  "zip_infolist_loop grp p zs (rs, out) =
     (rs @ concat (map (zip_entry_tuples grp) zs), out @ concat (map (zip_entry_output p) zs))"
proof (induction zs arbitrary: rs out)
  case Nil
  show ?case by simp
next
  case (Cons z zs)
  show ?case
    by (simp add: Cons.IH zip_entry_tuples_def zip_entry_output_def Let_def
        split: sum.splits)
qed

lemma collect_loop_concat:
  "collect_loop w cs (data, out) =
     (data @ concat (map (task_rows w) cs), out @ concat (map (task_output w) cs))"
proof (induction cs arbitrary: data out)
  case Nil
  show ?case by simp
next
  case (Cons c cs)
  show ?case
    by (simp add: Cons.IH task_rows_def task_output_def split: sum.splits)
qed



section \<open>The worker\<close>

lemma extract_midi_from_tar_opened:
  "tarfile_open w p = Inr (Inr members) \<Longrightarrow>
   extract_midi_from_tar w p =
     (Inr (concat (map (tar_member_tuples (tar_group p)) members)),
      concat (map (tar_member_output p) members))"
  by (simp add: extract_midi_from_tar_def tar_try_body_def tar_members_loop_concat)

lemma extract_midi_from_tar_failed:
  "tarfile_open w p = Inl e \<or> tarfile_open w p = Inr (Inl e) \<Longrightarrow>
   extract_midi_from_tar w p = (Inr [], [ErrCannotOpenTar p e])"
  by (auto simp: extract_midi_from_tar_def tar_try_body_def)

lemma extract_midi_from_zip_opened:
  "zipfile_open w p = Inr infolist \<Longrightarrow>
   extract_midi_from_zip w p =
     (Inr (concat (map (zip_entry_tuples (zip_group p)) infolist)),
      concat (map (zip_entry_output p) infolist))"
  by (simp add: extract_midi_from_zip_def zip_try_body_def zip_infolist_loop_concat)

lemma extract_midi_from_zip_failed:
  "zipfile_open w p = Inl e \<Longrightarrow>
   extract_midi_from_zip w p = (Inr [], [ErrCannotOpenZip p e])"
  by (simp add: extract_midi_from_zip_def zip_try_body_def)

lemma extract_midi_from_tar_returns: "\<exists>rs. fst (extract_midi_from_tar w p) = Inr rs"
proof (cases "tar_try_body w p (tar_group p) []")
  case (Inl e)
  then show ?thesis by (simp add: extract_midi_from_tar_def)
next
  case (Inr r)
  then show ?thesis by (cases r) (simp add: extract_midi_from_tar_def)
qed

lemma extract_midi_from_zip_returns: "\<exists>rs. fst (extract_midi_from_zip w p) = Inr rs"
proof (cases "zip_try_body w p (zip_group p) []")
  case (Inl e)
  then show ?thesis by (simp add: extract_midi_from_zip_def)
next
  case (Inr r)
  then show ?thesis by (cases r) (simp add: extract_midi_from_zip_def)
qed

lemma process_single_archive_returns: "\<exists>rs. fst (process_single_archive w p) = Inr rs"
  using extract_midi_from_tar_returns [of w p] extract_midi_from_zip_returns [of w p]
  by (simp add: process_single_archive_def)

lemma process_single_archive_tar:
  "process_single_archive w (dir @ [x @ ''.tar.gz''])
     = extract_midi_from_tar w (dir @ [x @ ''.tar.gz''])"
proof -
  have "suffix (dir @ [x @ ''.tar.gz'']) = ''.gz''"
    using suffix_dot [of "x @ ''.tar''" "''gz''" dir] by simp
  moreover have "endswith (lower (name (dir @ [x @ ''.tar.gz'']))) ''.tar.gz''"
    by (simp add: name_def lower_append lower_archive_suffixes endswith_iff)
  ultimately show ?thesis
    by (simp add: process_single_archive_def lower_archive_suffixes)
qed

lemma process_single_archive_zip:
  assumes "x \<noteq> []"
  shows "process_single_archive w (dir @ [x @ ''.zip''])
     = extract_midi_from_zip w (dir @ [x @ ''.zip''])"
proof -
  have "suffix (dir @ [x @ ''.zip'']) = ''.zip''"
    using suffix_dot [of x "''zip''" dir] assms by simp
  then show ?thesis
    by (simp add: process_single_archive_def lower_archive_suffixes)
qed

lemma future_result_Inl:
  assumes "future_result w p = Inl e"
  shows "future_failure w p = Some e"
proof (cases "future_failure w p")
  case None
  with assms process_single_archive_returns [of w p] show ?thesis
    by (auto simp: future_result_def)
next
  case (Some e')
  with assms show ?thesis by (simp add: future_result_def)
qed

section \<open>Sizes\<close>

lemma tar_member_tuples_size:
  assumes "t \<in> set (tar_member_tuples grp m)"
  shows "snd (snd (snd t)) = int (length (fst (snd (snd t))))"
proof (cases "isfile m \<and> is_midi_name (tarinfo_name m)")
  case False
  with assms show ?thesis by (simp add: tar_member_tuples_def)
next
  case True
  show ?thesis
  proof (cases "tar_read_member m")
    case (Inl e)
    with assms True show ?thesis by (simp add: tar_member_tuples_def)
  next
    case (Inr b)
    with assms True show ?thesis by (cases b) (simp_all add: tar_member_tuples_def)
  qed
qed

lemma zip_entry_tuples_size:
  assumes "t \<in> set (zip_entry_tuples grp z)"
  shows "snd (snd (snd t)) = int (length (fst (snd (snd t))))"
proof (cases "\<not> is_dir z \<and> is_midi_name (filename z)")
  case False
  with assms show ?thesis by (simp add: zip_entry_tuples_def)
next
  case True
  with assms show ?thesis by (cases "zip_read z") (simp_all add: zip_entry_tuples_def)
qed

lemma extract_midi_from_tar_size:
  assumes "fst (extract_midi_from_tar w p) = Inr rs" "t \<in> set rs"
  shows "snd (snd (snd t)) = int (length (fst (snd (snd t))))"
proof (cases "tarfile_open w p")
  case (Inl e)
  with assms show ?thesis by (simp add: extract_midi_from_tar_failed)
next
  case (Inr tar)
  show ?thesis
  proof (cases tar)
    case (Inl e)
    with Inr assms show ?thesis by (simp add: extract_midi_from_tar_failed)
  next
    case (Inr members)
    with \<open>tarfile_open w p = Inr tar\<close> assms
    obtain m where "t \<in> set (tar_member_tuples (tar_group p) m)"
      by (auto simp: extract_midi_from_tar_opened)
    then show ?thesis by (rule tar_member_tuples_size)
  qed
qed

lemma extract_midi_from_zip_size:
  assumes "fst (extract_midi_from_zip w p) = Inr rs" "t \<in> set rs"
  shows "snd (snd (snd t)) = int (length (fst (snd (snd t))))"
proof (cases "zipfile_open w p")
  case (Inl e)
  with assms show ?thesis by (simp add: extract_midi_from_zip_failed)
next
  case (Inr infolist)
  with assms obtain z where "t \<in> set (zip_entry_tuples (zip_group p) z)"
    by (auto simp: extract_midi_from_zip_opened)
  then show ?thesis by (rule zip_entry_tuples_size)
qed

lemma process_single_archive_size:
  assumes "fst (process_single_archive w p) = Inr rs" "t \<in> set rs"
  shows "snd (snd (snd t)) = int (length (fst (snd (snd t))))"
  using assms extract_midi_from_tar_size [of w p rs t] extract_midi_from_zip_size [of w p rs t]
  by (auto simp: process_single_archive_def split: if_splits)

lemma task_rows_size:
  assumes "r \<in> set (task_rows w a)"
  shows "file_size_col r = int (length (content_col r))"
proof (cases "future_result w a")
  case (Inl e)
  with assms show ?thesis by (simp add: task_rows_def)
next
  case (Inr results)
  with assms obtain t where t: "t \<in> set results" "r = row_of_tuple t"
    by (auto simp: task_rows_def)
  from Inr have "fst (process_single_archive w a) = Inr results"
    by (simp add: future_result_def split: option.splits)
  with t have "snd (snd (snd t)) = int (length (fst (snd (snd t))))"
    by (simp add: process_single_archive_size)
  with t show ?thesis by (simp add: row_of_tuple_def split: prod.splits)
qed

section \<open>The table\<close>

lemma DataFrame_Inr: "DataFrame w data = Inr df \<Longrightarrow> df = data"
  by (simp add: DataFrame_def split: list.splits)



lemma process_archives_table:
  assumes "0 < effective_max_workers w archives mw"
  shows "fst (process_archives w archives completed mw) =
           (if concat (map (task_rows w) completed) = [] then Inr []
            else DataFrame w (concat (map (task_rows w) completed)))"
  using assms by (simp add: process_archives_def collect_loop_concat Let_def)

lemma process_archives_Inr:
  assumes "fst (process_archives w archives completed mw) = Inr df"
  shows "0 < effective_max_workers w archives mw \<and> df = concat (map (task_rows w) completed)"
proof (cases "0 < effective_max_workers w archives mw")
  case True
  with assms show ?thesis
    by (auto simp: process_archives_table dest: DataFrame_Inr split: if_splits)
next
  case False
  with assms show ?thesis by (simp add: process_archives_def Let_def)
qed

lemma save_to_parquet_cases:
  "save_to_parquet w df outp d =
     (if df = [] then (Inr (), d, [NoDataToSave])
      else case mkdir_failure w (parent outp) of
        Some e \<Rightarrow> (Inl e, d, [])
      | None \<Rightarrow>
         (case write_failure w outp of
            Some e \<Rightarrow> (Inl e,
               d\<lparr>directories := directories d \<union>
                   set (map (\<lambda>n. take n (parent outp)) [1..<Suc (length (parent outp))])\<rparr>,
               [SavingTo outp])
          | None \<Rightarrow> (Inr (),
               d\<lparr>directories := directories d \<union>
                   set (map (\<lambda>n. take n (parent outp)) [1..<Suc (length (parent outp))]),
                 artifacts := (artifacts d)(outp \<mapsto> df)\<rparr>,
               [SavingTo outp, SavedRecords (length df) outp])))"
  by (simp add: save_to_parquet_def mkdir_parents_def write_parquet_def split: option.splits)

section \<open>The table as a multiset\<close>














section \<open>The result of the program\<close>



section \<open>Evaluation of the concrete run\<close>

lemma mid_names:
  "is_midi_name ''songs/tune.midi''" "is_midi_name ''LOUD.MID''"
  "\<not> is_midi_name ''songs/readme.txt''" "\<not> is_midi_name ''songs''"
  "is_midi_name ''album/song.mid''" "\<not> is_midi_name ''album/cover.png''"
  "\<not> is_midi_name ''album/''"
  "is_midi_name ''one.mid''" "is_midi_name ''torn.mid''" "is_midi_name ''ghost.mid''"
  "is_midi_name ''two.mid''" "is_midi_name ''first.mid''" "is_midi_name ''bad.midi''"
  "is_midi_name ''last.mid''"
  by code_simp+

lemma example_tar_result:
  "extract_midi_from_tar example_world [''data'', ''b.tar.gz'']
   = (Inr [(''b'', ''tune.midi'', [77, 84, 104, 100], 4), (''b'', ''LOUD.MID'', [77, 84], 2)], [])"
  by code_simp

lemma example_zip_result:
  "extract_midi_from_zip example_world [''data'', ''a.zip'']
   = (Inr [(''a'', ''song.mid'', [77, 84, 104, 100], 4)], [])"
  by code_simp

lemma example_table:
  "fst (process_archives example_world [[''data'', ''b.tar.gz''], [''data'', ''a.zip'']]
          [[''data'', ''a.zip''], [''data'', ''b.tar.gz'']] None)
   = Inr [\<lparr>group_col = ''a'', file_name_col = ''song.mid'', content_col = [77, 84, 104, 100],
            file_size_col = 4\<rparr>,
          \<lparr>group_col = ''b'', file_name_col = ''tune.midi'', content_col = [77, 84, 104, 100],
            file_size_col = 4\<rparr>,
          \<lparr>group_col = ''b'', file_name_col = ''LOUD.MID'', content_col = [77, 84],
            file_size_col = 2\<rparr>]"
  by code_simp

lemma damaged_tar_result:
  "process_single_archive example_world [''data'', ''c.tar.gz'']
   = (Inr [(''c'', ''one.mid'', [1], 1), (''c'', ''two.mid'', [2, 2], 2)],
      [WarnCannotRead [''data'', ''c.tar.gz''] ''torn.mid'' ''unexpected end of data''])"
  by code_simp

lemma damaged_zip_result:
  "process_single_archive example_world [''data'', ''d.zip'']
   = (Inr [(''d'', ''first.mid'', [1], 1), (''d'', ''last.mid'', [3, 3, 3], 3)],
      [WarnCannotRead [''data'', ''d.zip''] ''bad.midi'' ''bad CRC-32''])"
  by code_simp




lemma example_save:
  "fst (save_to_parquet example_world [example_row] [''out'', ''midi.parquet''] empty_disk)
     = Inr ()"
  by code_simp




section \<open>Properties of the size categories\<close>

text \<open>
  C4, as the claim states it, at 1023 bytes: the claim names the bucket \<open><1KB\<close>, the
  program's label has a space after the comparison sign.
\<close>

theorem get_size_category_label_counterexample:
  "get_size_category 1023 \<noteq> ''<1KB''"
  by (simp add: get_size_category_def)

text \<open>
  C4, amended: every size (negative ones included) falls in exactly one of five buckets
  with left-inclusive boundaries at 1024, 10240, 102400 and 1048576, and the labels are
  \<open>< 1KB\<close>, \<open>1KB - 10KB\<close>, \<open>10KB - 100KB\<close>, \<open>100KB - 1MB\<close> and \<open>> 1MB\<close>.
\<close>

theorem get_size_category_buckets:
  "(n < 1024 \<longrightarrow> get_size_category n = ''< 1KB'') \<and>
   (1024 \<le> n \<and> n < 10240 \<longrightarrow> get_size_category n = ''1KB - 10KB'') \<and>
   (10240 \<le> n \<and> n < 102400 \<longrightarrow> get_size_category n = ''10KB - 100KB'') \<and>
   (102400 \<le> n \<and> n < 1048576 \<longrightarrow> get_size_category n = ''100KB - 1MB'') \<and>
   (1048576 \<le> n \<longrightarrow> get_size_category n = ''> 1MB'')"
  by (simp add: get_size_category_def)

theorem get_size_category_buckets_witness:
  "get_size_category 1023 = ''< 1KB'' \<and> get_size_category 1024 = ''1KB - 10KB'' \<and>
   get_size_category 10239 = ''1KB - 10KB'' \<and> get_size_category 10240 = ''10KB - 100KB'' \<and>
   get_size_category 102399 = ''10KB - 100KB'' \<and> get_size_category 102400 = ''100KB - 1MB'' \<and>
   get_size_category 1048575 = ''100KB - 1MB'' \<and> get_size_category 1048576 = ''> 1MB''"
  using get_size_category_buckets [of 1023] get_size_category_buckets [of 1024]
    get_size_category_buckets [of 10239] get_size_category_buckets [of 10240]
    get_size_category_buckets [of 102399] get_size_category_buckets [of 102400]
    get_size_category_buckets [of 1048575] get_size_category_buckets [of 1048576]
  by simp

section \<open>Which entries are extracted\<close>



text \<open>
  C3: either extraction path returns a list, and in every tuple of it, as in every row
  of the table that \<open>process_archives\<close> builds from the tuples, the size is the number
  of bytes of the content; a successful \<open>save_to_parquet\<close> stores the rows it was given,
  unchanged.
\<close>

theorem file_size_is_content_length:
  "(\<exists>rs. fst (extract_midi_from_tar w p) = Inr rs \<and>
         (\<forall>(g, n, c, s)\<in>set rs. s = int (length c))) \<and>
   (\<exists>rs. fst (extract_midi_from_zip w q) = Inr rs \<and>
         (\<forall>(g, n, c, s)\<in>set rs. s = int (length c))) \<and>
   (\<forall>df. fst (process_archives w archives completed mw) = Inr df
      \<longrightarrow> (\<forall>r\<in>set df. file_size_col r = int (length (content_col r)))) \<and>
   (\<forall>df d d' out. df \<noteq> [] \<and> save_to_parquet w df outp d = (Inr (), d', out)
      \<longrightarrow> artifacts d' outp = Some df)"
proof (intro conjI allI impI)
  obtain rs where rs: "fst (extract_midi_from_tar w p) = Inr rs"
    using extract_midi_from_tar_returns by blast
  then have "\<forall>(g, n, c, s)\<in>set rs. s = int (length c)"
    using extract_midi_from_tar_size [of w p rs] by fastforce
  with rs show "\<exists>rs. fst (extract_midi_from_tar w p) = Inr rs \<and>
         (\<forall>(g, n, c, s)\<in>set rs. s = int (length c))"
    by blast
next
  obtain rs where rs: "fst (extract_midi_from_zip w q) = Inr rs"
    using extract_midi_from_zip_returns by blast
  then have "\<forall>(g, n, c, s)\<in>set rs. s = int (length c)"
    using extract_midi_from_zip_size [of w q rs] by fastforce
  with rs show "\<exists>rs. fst (extract_midi_from_zip w q) = Inr rs \<and>
         (\<forall>(g, n, c, s)\<in>set rs. s = int (length c))"
    by blast
next
  fix df
  assume "fst (process_archives w archives completed mw) = Inr df"
  then have "df = concat (map (task_rows w) completed)"
    using process_archives_Inr by blast
  then show "\<forall>r\<in>set df. file_size_col r = int (length (content_col r))"
    by (auto simp: task_rows_size)
next
  fix df d d' out
  assume "df \<noteq> [] \<and> save_to_parquet w df outp d = (Inr (), d', out)"
  then show "artifacts d' outp = Some df"
    by (auto simp: save_to_parquet_cases split: option.splits)
qed

theorem file_size_is_content_length_witness:
  "fst (extract_midi_from_tar example_world [''data'', ''b.tar.gz''])
     = Inr [(''b'', ''tune.midi'', [77, 84, 104, 100], 4), (''b'', ''LOUD.MID'', [77, 84], 2)] \<and>
   (4::int) = int (length [77, 84, 104, 100 :: 8 word]) \<and>
   fst (extract_midi_from_zip example_world [''data'', ''a.zip''])
     = Inr [(''a'', ''song.mid'', [77, 84, 104, 100], 4)] \<and>
   fst (process_archives example_world [[''data'', ''b.tar.gz''], [''data'', ''a.zip'']]
          [[''data'', ''a.zip''], [''data'', ''b.tar.gz'']] None)
   = Inr [\<lparr>group_col = ''a'', file_name_col = ''song.mid'', content_col = [77, 84, 104, 100],
            file_size_col = 4\<rparr>,
          \<lparr>group_col = ''b'', file_name_col = ''tune.midi'', content_col = [77, 84, 104, 100],
            file_size_col = 4\<rparr>,
          \<lparr>group_col = ''b'', file_name_col = ''LOUD.MID'', content_col = [77, 84],
            file_size_col = 2\<rparr>] \<and>
   [example_row] \<noteq> [] \<and>
   fst (save_to_parquet example_world [example_row] [''out'', ''midi.parquet''] empty_disk)
     = Inr () \<and>
   artifacts (fst (snd (save_to_parquet example_world [example_row] [''out'', ''midi.parquet'']
     empty_disk))) [''out'', ''midi.parquet''] = Some [example_row]"
proof -
  note inst = file_size_is_content_length [of example_world "[''data'', ''b.tar.gz'']"
        "[''data'', ''a.zip'']" "[[''data'', ''b.tar.gz''], [''data'', ''a.zip'']]"
        "[[''data'', ''a.zip''], [''data'', ''b.tar.gz'']]" None "[''out'', ''midi.parquet'']"]
  obtain d' out where s: "save_to_parquet example_world [example_row]
      [''out'', ''midi.parquet''] empty_disk = (Inr (), d', out)"
    using example_save
    by (cases "save_to_parquet example_world [example_row] [''out'', ''midi.parquet''] empty_disk")
      auto
  have ne: "[example_row] \<noteq> []" by simp
  from inst have "\<forall>df d d' out. df \<noteq> [] \<and>
      save_to_parquet example_world df [''out'', ''midi.parquet''] d = (Inr (), d', out)
      \<longrightarrow> artifacts d' [''out'', ''midi.parquet''] = Some df"
    by blast
  with s ne have "artifacts d' [''out'', ''midi.parquet''] = Some [example_row]"
    by blast
  with s have a: "artifacts (fst (snd (save_to_parquet example_world [example_row]
      [''out'', ''midi.parquet''] empty_disk))) [''out'', ''midi.parquet''] = Some [example_row]"
    by simp
  show ?thesis
    using a example_table example_save
    by (simp add: example_tar_result example_zip_result)
qed

section \<open>Failures inside a worker\<close>

text \<open>
  C5: the worker that the pool runs for an archive, \<open>process_single_archive\<close>, returns
  a list for every archive and every behaviour of the libraries: no exception leaves
  it, so the only exception the coordinator can get from a task is a failure of the
  pool itself. For a tar-gzip archive that cannot be opened (or whose member list cannot
  be read), and for a zip archive that cannot be opened, the worker returns the empty
  list and prints one error message. When reading one matching entry raises, the worker
  returns what the entries before and after it yield, and prints one warning between
  their messages.
\<close>

theorem worker_failures_are_logged_and_skipped:
  "(\<exists>rs. fst (process_single_archive w p0) = Inr rs) \<and>
   (future_result w p0 = Inl e0 \<longrightarrow> future_failure w p0 = Some e0) \<and>
   (p1 = d1 @ [x1 @ ''.tar.gz''] \<and>
    (tarfile_open w p1 = Inl e1 \<or> tarfile_open w p1 = Inr (Inl e1))
      \<longrightarrow> process_single_archive w p1 = (Inr [], [ErrCannotOpenTar p1 e1])) \<and>
   (p2 = d2 @ [x2 @ ''.zip''] \<and> x2 \<noteq> [] \<and> zipfile_open w p2 = Inl e2
      \<longrightarrow> process_single_archive w p2 = (Inr [], [ErrCannotOpenZip p2 e2])) \<and>
   (p3 = d3 @ [x3 @ ''.tar.gz''] \<and>
    tarfile_open w p3 = Inr (Inr (pre3 @ m # post3)) \<and> isfile m \<and>
    is_midi_name (tarinfo_name m) \<and> tar_read_member m = Inl e3
      \<longrightarrow> process_single_archive w p3 =
            (Inr (fst (tar_members_loop (tar_group p3) p3 pre3 ([], [])) @
                  fst (tar_members_loop (tar_group p3) p3 post3 ([], []))),
             snd (tar_members_loop (tar_group p3) p3 pre3 ([], [])) @
             [WarnCannotRead p3 (tarinfo_name m) e3] @
             snd (tar_members_loop (tar_group p3) p3 post3 ([], [])))) \<and>
   (p4 = d4 @ [x4 @ ''.zip''] \<and> x4 \<noteq> [] \<and>
    zipfile_open w p4 = Inr (pre4 @ z # post4) \<and> \<not> is_dir z \<and>
    is_midi_name (filename z) \<and> zip_read z = Inl e4
      \<longrightarrow> process_single_archive w p4 =
            (Inr (fst (zip_infolist_loop (zip_group p4) p4 pre4 ([], [])) @
                  fst (zip_infolist_loop (zip_group p4) p4 post4 ([], []))),
             snd (zip_infolist_loop (zip_group p4) p4 pre4 ([], [])) @
             [WarnCannotRead p4 (filename z) e4] @
             snd (zip_infolist_loop (zip_group p4) p4 post4 ([], []))))"
proof (intro conjI impI)
  show "\<exists>rs. fst (process_single_archive w p0) = Inr rs"
    by (rule process_single_archive_returns)
next
  assume "future_result w p0 = Inl e0"
  then show "future_failure w p0 = Some e0" by (rule future_result_Inl)
next
  assume h: "p1 = d1 @ [x1 @ ''.tar.gz''] \<and>
    (tarfile_open w p1 = Inl e1 \<or> tarfile_open w p1 = Inr (Inl e1))"
  then have "process_single_archive w p1 = extract_midi_from_tar w p1"
    by (simp add: process_single_archive_tar)
  moreover from h have "tarfile_open w p1 = Inl e1 \<or> tarfile_open w p1 = Inr (Inl e1)"
    by blast
  then have "extract_midi_from_tar w p1 = (Inr [], [ErrCannotOpenTar p1 e1])"
    by (rule extract_midi_from_tar_failed)
  ultimately show "process_single_archive w p1 = (Inr [], [ErrCannotOpenTar p1 e1])"
    by simp
next
  assume h: "p2 = d2 @ [x2 @ ''.zip''] \<and> x2 \<noteq> [] \<and> zipfile_open w p2 = Inl e2"
  then have "process_single_archive w p2 = extract_midi_from_zip w p2"
    by (simp add: process_single_archive_zip)
  moreover from h have "zipfile_open w p2 = Inl e2" by blast
  then have "extract_midi_from_zip w p2 = (Inr [], [ErrCannotOpenZip p2 e2])"
    by (rule extract_midi_from_zip_failed)
  ultimately show "process_single_archive w p2 = (Inr [], [ErrCannotOpenZip p2 e2])"
    by simp
next
  assume h: "p3 = d3 @ [x3 @ ''.tar.gz''] \<and>
    tarfile_open w p3 = Inr (Inr (pre3 @ m # post3)) \<and> isfile m \<and>
    is_midi_name (tarinfo_name m) \<and> tar_read_member m = Inl e3"
  then have d: "process_single_archive w p3 = extract_midi_from_tar w p3"
    by (simp add: process_single_archive_tar)
  from h have "tar_member_tuples (tar_group p3) m = []"
    and "tar_member_output p3 m = [WarnCannotRead p3 (tarinfo_name m) e3]"
    by (simp_all add: tar_member_tuples_def tar_member_output_def)
  moreover from h have "extract_midi_from_tar w p3 =
     (Inr (concat (map (tar_member_tuples (tar_group p3)) (pre3 @ m # post3))),
      concat (map (tar_member_output p3) (pre3 @ m # post3)))"
    using extract_midi_from_tar_opened [of w p3 "pre3 @ m # post3"] by blast
  ultimately show "process_single_archive w p3 =
            (Inr (fst (tar_members_loop (tar_group p3) p3 pre3 ([], [])) @
                  fst (tar_members_loop (tar_group p3) p3 post3 ([], []))),
             snd (tar_members_loop (tar_group p3) p3 pre3 ([], [])) @
             [WarnCannotRead p3 (tarinfo_name m) e3] @
             snd (tar_members_loop (tar_group p3) p3 post3 ([], [])))"
    using d by (simp add: tar_members_loop_concat)
next
  assume h: "p4 = d4 @ [x4 @ ''.zip''] \<and> x4 \<noteq> [] \<and>
    zipfile_open w p4 = Inr (pre4 @ z # post4) \<and> \<not> is_dir z \<and>
    is_midi_name (filename z) \<and> zip_read z = Inl e4"
  then have d: "process_single_archive w p4 = extract_midi_from_zip w p4"
    by (simp add: process_single_archive_zip)
  from h have "zip_entry_tuples (zip_group p4) z = []"
    and "zip_entry_output p4 z = [WarnCannotRead p4 (filename z) e4]"
    by (simp_all add: zip_entry_tuples_def zip_entry_output_def)
  moreover from h have "extract_midi_from_zip w p4 =
     (Inr (concat (map (zip_entry_tuples (zip_group p4)) (pre4 @ z # post4))),
      concat (map (zip_entry_output p4) (pre4 @ z # post4)))"
    using extract_midi_from_zip_opened [of w p4 "pre4 @ z # post4"] by blast
  ultimately show "process_single_archive w p4 =
            (Inr (fst (zip_infolist_loop (zip_group p4) p4 pre4 ([], [])) @
                  fst (zip_infolist_loop (zip_group p4) p4 post4 ([], []))),
             snd (zip_infolist_loop (zip_group p4) p4 pre4 ([], [])) @
             [WarnCannotRead p4 (filename z) e4] @
             snd (zip_infolist_loop (zip_group p4) p4 post4 ([], [])))"
    using d by (simp add: zip_infolist_loop_concat)
qed

theorem worker_failures_are_logged_and_skipped_witness:
  "tarfile_open example_world ([''data''] @ [''cut'' @ ''.tar.gz''])
     = Inr (Inl ''unexpected end of data'') \<and>
   process_single_archive example_world ([''data''] @ [''cut'' @ ''.tar.gz''])
     = (Inr [], [ErrCannotOpenTar ([''data''] @ [''cut'' @ ''.tar.gz''])
                   ''unexpected end of data'']) \<and>
   ''e'' \<noteq> [] \<and>
   zipfile_open example_world ([''data''] @ [''e'' @ ''.zip'']) = Inl ''File is not a zip file'' \<and>
   process_single_archive example_world ([''data''] @ [''e'' @ ''.zip''])
     = (Inr [], [ErrCannotOpenZip ([''data''] @ [''e'' @ ''.zip'']) ''File is not a zip file'']) \<and>
   tarfile_open example_world ([''data''] @ [''c'' @ ''.tar.gz''])
     = Inr (Inr (take 1 damaged_tar_members @ damaged_tar_members ! 1 # drop 2 damaged_tar_members)) \<and>
   isfile (damaged_tar_members ! 1) \<and> is_midi_name (tarinfo_name (damaged_tar_members ! 1)) \<and>
   tar_read_member (damaged_tar_members ! 1) = Inl ''unexpected end of data'' \<and>
   process_single_archive example_world [''data'', ''c.tar.gz'']
     = (Inr [(''c'', ''one.mid'', [1], 1), (''c'', ''two.mid'', [2, 2], 2)],
        [WarnCannotRead [''data'', ''c.tar.gz''] ''torn.mid'' ''unexpected end of data'']) \<and>
   ''d'' \<noteq> [] \<and>
   zipfile_open example_world ([''data''] @ [''d'' @ ''.zip''])
     = Inr (take 1 damaged_zip_infolist @ damaged_zip_infolist ! 1 # drop 2 damaged_zip_infolist) \<and>
   \<not> is_dir (damaged_zip_infolist ! 1) \<and> is_midi_name (filename (damaged_zip_infolist ! 1)) \<and>
   zip_read (damaged_zip_infolist ! 1) = Inl ''bad CRC-32'' \<and>
   process_single_archive example_world [''data'', ''d.zip'']
     = (Inr [(''d'', ''first.mid'', [1], 1), (''d'', ''last.mid'', [3, 3, 3], 3)],
        [WarnCannotRead [''data'', ''d.zip''] ''bad.midi'' ''bad CRC-32'']) \<and>
   (\<exists>rs. fst (process_single_archive example_world [''data'', ''d.zip'']) = Inr rs) \<and>
   future_result example_world [''data'', ''d.zip''] \<noteq> Inl ''bad CRC-32''"
proof -
  have h1: "tarfile_open example_world ([''data''] @ [''cut'' @ ''.tar.gz''])
              = Inr (Inl ''unexpected end of data'')"
    by (simp add: example_world_def)
  have h2: "zipfile_open example_world ([''data''] @ [''e'' @ ''.zip''])
              = Inl ''File is not a zip file''"
    by (simp add: example_world_def)
  have h3: "tarfile_open example_world ([''data''] @ [''c'' @ ''.tar.gz''])
     = Inr (Inr (take 1 damaged_tar_members @ damaged_tar_members ! 1 # drop 2 damaged_tar_members))"
    by (simp add: example_world_def damaged_tar_members_def)
  have h3': "isfile (damaged_tar_members ! 1)"
    "is_midi_name (tarinfo_name (damaged_tar_members ! 1))"
    "tar_read_member (damaged_tar_members ! 1) = Inl ''unexpected end of data''"
    by (simp_all add: damaged_tar_members_def tar_read_member_def mid_names)
  have h4: "zipfile_open example_world ([''data''] @ [''d'' @ ''.zip''])
     = Inr (take 1 damaged_zip_infolist @ damaged_zip_infolist ! 1 # drop 2 damaged_zip_infolist)"
    by (simp add: example_world_def damaged_zip_infolist_def)
  have h4': "\<not> is_dir (damaged_zip_infolist ! 1)"
    "is_midi_name (filename (damaged_zip_infolist ! 1))"
    "zip_read (damaged_zip_infolist ! 1) = Inl ''bad CRC-32''"
    by (simp_all add: damaged_zip_infolist_def mid_names)
  have h5: "future_failure example_world [''data'', ''d.zip''] = None"
    by (simp add: example_world_def)
  note inst = worker_failures_are_logged_and_skipped [where w = example_world
        and ?p0.0 = "[''data'', ''d.zip'']" and ?e0.0 = "''bad CRC-32''"
        and ?p1.0 = "[''data''] @ [''cut'' @ ''.tar.gz'']" and ?d1.0 = "[''data'']"
        and ?x1.0 = "''cut''" and ?e1.0 = "''unexpected end of data''"
        and ?p2.0 = "[''data''] @ [''e'' @ ''.zip'']" and ?d2.0 = "[''data'']"
        and ?x2.0 = "''e''" and ?e2.0 = "''File is not a zip file''"
        and ?p3.0 = "[''data''] @ [''c'' @ ''.tar.gz'']" and ?d3.0 = "[''data'']"
        and ?x3.0 = "''c''" and ?pre3.0 = "take 1 damaged_tar_members"
        and m = "damaged_tar_members ! 1" and ?post3.0 = "drop 2 damaged_tar_members"
        and ?e3.0 = "''unexpected end of data''"
        and ?p4.0 = "[''data''] @ [''d'' @ ''.zip'']" and ?d4.0 = "[''data'']"
        and ?x4.0 = "''d''" and ?pre4.0 = "take 1 damaged_zip_infolist"
        and z = "damaged_zip_infolist ! 1" and ?post4.0 = "drop 2 damaged_zip_infolist"
        and ?e4.0 = "''bad CRC-32''"]
  have c1: "process_single_archive example_world ([''data''] @ [''cut'' @ ''.tar.gz''])
     = (Inr [], [ErrCannotOpenTar ([''data''] @ [''cut'' @ ''.tar.gz''])
                   ''unexpected end of data''])"
    using inst h1 by blast
  have c2: "process_single_archive example_world ([''data''] @ [''e'' @ ''.zip''])
     = (Inr [], [ErrCannotOpenZip ([''data''] @ [''e'' @ ''.zip'']) ''File is not a zip file''])"
    using inst h2 by blast
  have c0: "\<exists>rs. fst (process_single_archive example_world [''data'', ''d.zip'']) = Inr rs"
    using inst by blast
  have c0': "future_result example_world [''data'', ''d.zip''] \<noteq> Inl ''bad CRC-32''"
    using inst h5 by auto
  show ?thesis
    using h1 h2 h3 h3' h4 h4' c0 c0' c1 c2 damaged_tar_result damaged_zip_result
    by simp
qed

text \<open>
  C10: a matching regular member of a tar archive for which \<open>extractfile\<close> returns no
  file object adds no tuple and no message: the loop ends in the same state as if the
  member were absent. When \<open>extractfile\<close> or the read raises, a warning is printed.
\<close>

theorem tar_none_file_object_skipped_silently:
  "(isfile m \<and> is_midi_name (tarinfo_name m) \<and> extractfile m = Inr None
      \<longrightarrow> tar_members_loop grp p (pre @ m # post) (rs, out)
            = tar_members_loop grp p (pre @ post) (rs, out) \<and>
          tar_members_loop grp p [m] (rs, out) = (rs, out)) \<and>
   (isfile m' \<and> is_midi_name (tarinfo_name m') \<and>
    (extractfile m' = Inl e \<or> extractfile m' = Inr (Some (Inl e)))
      \<longrightarrow> tar_members_loop grp p [m'] (rs, out)
            = (rs, out @ [WarnCannotRead p (tarinfo_name m') e]))"
proof (intro conjI impI)
  assume h: "isfile m \<and> is_midi_name (tarinfo_name m) \<and> extractfile m = Inr None"
  then have "tar_read_member m = Inr None" by (simp add: tar_read_member_def)
  with h have c: "tar_member_tuples grp m = []" "tar_member_output p m = []"
    by (simp_all add: tar_member_tuples_def tar_member_output_def)
  then show "tar_members_loop grp p (pre @ m # post) (rs, out)
            = tar_members_loop grp p (pre @ post) (rs, out)"
    by (simp add: tar_members_loop_concat)
  from c show "tar_members_loop grp p [m] (rs, out) = (rs, out)"
    by (simp add: tar_members_loop_concat)
next
  assume h: "isfile m' \<and> is_midi_name (tarinfo_name m') \<and>
    (extractfile m' = Inl e \<or> extractfile m' = Inr (Some (Inl e)))"
  then have "tar_read_member m' = Inl e" by (auto simp: tar_read_member_def)
  with h show "tar_members_loop grp p [m'] (rs, out)
            = (rs, out @ [WarnCannotRead p (tarinfo_name m') e])"
    by (simp add: tar_members_loop_concat tar_member_tuples_def tar_member_output_def)
qed

theorem tar_none_file_object_skipped_silently_witness:
  "isfile (damaged_tar_members ! 2) \<and> is_midi_name (tarinfo_name (damaged_tar_members ! 2)) \<and>
   extractfile (damaged_tar_members ! 2) = Inr None \<and>
   tar_members_loop ''c'' [''data'', ''c.tar.gz'']
       (take 2 damaged_tar_members @ damaged_tar_members ! 2 # drop 3 damaged_tar_members) ([], [])
     = tar_members_loop ''c'' [''data'', ''c.tar.gz'']
       (take 2 damaged_tar_members @ drop 3 damaged_tar_members) ([], []) \<and>
   tar_members_loop ''c'' [''data'', ''c.tar.gz''] [damaged_tar_members ! 2] ([], []) = ([], []) \<and>
   isfile (damaged_tar_members ! 1) \<and> is_midi_name (tarinfo_name (damaged_tar_members ! 1)) \<and>
   extractfile (damaged_tar_members ! 1) = Inr (Some (Inl ''unexpected end of data'')) \<and>
   tar_members_loop ''c'' [''data'', ''c.tar.gz''] [damaged_tar_members ! 1] ([], [])
     = ([], [WarnCannotRead [''data'', ''c.tar.gz''] ''torn.mid'' ''unexpected end of data''])"
proof -
  have h1: "isfile (damaged_tar_members ! 2)"
    "is_midi_name (tarinfo_name (damaged_tar_members ! 2))"
    "extractfile (damaged_tar_members ! 2) = Inr None"
    by (simp_all add: damaged_tar_members_def mid_names)
  have h2: "isfile (damaged_tar_members ! 1)"
    "is_midi_name (tarinfo_name (damaged_tar_members ! 1))"
    "extractfile (damaged_tar_members ! 1) = Inr (Some (Inl ''unexpected end of data''))"
    by (simp_all add: damaged_tar_members_def mid_names)
  have n: "tarinfo_name (damaged_tar_members ! 1) = ''torn.mid''"
    by (simp add: damaged_tar_members_def)
  show ?thesis
    using tar_none_file_object_skipped_silently [of "damaged_tar_members ! 2" "''c''"
        "[''data'', ''c.tar.gz'']" "take 2 damaged_tar_members" "drop 3 damaged_tar_members"
        "[]" "[]" "damaged_tar_members ! 1" "''unexpected end of data''"]
      h1 h2 n
    by simp
qed

section \<open>Group names\<close>

text \<open>
  C1, at the archive \<open>data/songs.tar.bak.tar.gz\<close>: stripping the suffixes \<open>.gz\<close> and
  \<open>.tar\<close> leaves \<open>songs.tar.bak\<close>, but the program removes every \<open>.tar\<close> of the stem
  and names the group \<open>songs.bak\<close>. (Where the name before \<open>.tar.gz\<close> holds no
  \<open>.tar\<close>, the group is that name: \<open>tar_group_strip\<close>; for a zip archive with a
  non-empty name before \<open>.zip\<close> it is that name: \<open>zip_group_strip\<close>.)
\<close>

theorem tar_group_removes_inner_tar:
  "tar_group [''data'', ''songs.tar.bak.tar.gz''] = ''songs.bak'' \<and>
   ''songs.bak'' \<noteq> ''songs.tar.bak''"
  by code_simp




section \<open>Exit codes\<close>




section \<open>Persisting the table\<close>

text \<open>
  C7: for the empty table \<open>save_to_parquet\<close> prints one message and returns with the
  disk unchanged (no directory made, no artifact written). For a non-empty table a
  successful call has stored the rows at the output path and its last message reports
  their number; the call succeeds when neither \<open>mkdir\<close> nor the write raises.
\<close>

theorem save_to_parquet_empty_is_noop:
  "save_to_parquet w [] p d = (Inr (), d, [NoDataToSave]) \<and>
   (df \<noteq> [] \<and> fst (save_to_parquet w df p d) = Inr ()
      \<longrightarrow> (\<exists>d'. save_to_parquet w df p d
                  = (Inr (), d', [SavingTo p, SavedRecords (length df) p]) \<and>
                artifacts d' p = Some df)) \<and>
   (df \<noteq> [] \<and> mkdir_failure w (parent p) = None \<and> write_failure w p = None
      \<longrightarrow> fst (save_to_parquet w df p d) = Inr ())"
  by (auto simp: save_to_parquet_cases split: option.splits)


theorem save_to_parquet_empty_is_noop_witness:
  "[example_row] \<noteq> [] \<and>
   mkdir_failure example_world (parent [''out'', ''midi.parquet'']) = None \<and>
   write_failure example_world [''out'', ''midi.parquet''] = None \<and>
   fst (save_to_parquet example_world [example_row] [''out'', ''midi.parquet''] empty_disk)
     = Inr () \<and>
   (\<exists>d'. save_to_parquet example_world [example_row] [''out'', ''midi.parquet''] empty_disk
            = (Inr (), d', [SavingTo [''out'', ''midi.parquet''],
                 SavedRecords (length [example_row]) [''out'', ''midi.parquet'']]) \<and>
         artifacts d' [''out'', ''midi.parquet''] = Some [example_row]) \<and>
   save_to_parquet example_world [] [''out'', ''midi.parquet''] empty_disk
     = (Inr (), empty_disk, [NoDataToSave])"
proof -
  have h: "mkdir_failure example_world (parent [''out'', ''midi.parquet'']) = None"
    "write_failure example_world [''out'', ''midi.parquet''] = None"
    by (simp_all add: example_world_def)
  show ?thesis
    using save_to_parquet_empty_is_noop [of example_world "[''out'', ''midi.parquet'']"
        empty_disk "[example_row]"] h
    by simp
qed

section \<open>Pool size\<close>

text \<open>
  C8, as the claim states it, with 8 processing units and 2 archives: the default pool
  size is 2, not the number of processing units.
\<close>

theorem default_pool_size_counterexample:
  "effective_max_workers example_world [[''data'', ''b.tar.gz''], [''data'', ''a.zip'']] None
     \<noteq> cpu_count example_world"
  by (simp add: effective_max_workers_def example_world_def)

text \<open>
  C8, amended: without \<open>-j\<close> the pool size is the minimum of the number of processing
  units and the number of archives, which is what the first message of
  \<open>process_archives\<close> reports; it equals the number of processing units exactly when
  there are at least that many archives.
\<close>

theorem default_pool_size_is_min:
  "effective_max_workers w archives None = min (cpu_count w) (int (length archives)) \<and>
   (effective_max_workers w archives None = cpu_count w
      \<longleftrightarrow> cpu_count w \<le> int (length archives)) \<and>
   hd (snd (process_archives w archives completed None))
     = InfoUsingProcesses (min (cpu_count w) (int (length archives))) (length archives)"
proof (intro conjI)
  show "effective_max_workers w archives None = min (cpu_count w) (int (length archives))"
    by (simp add: effective_max_workers_def)
  show "effective_max_workers w archives None = cpu_count w
      \<longleftrightarrow> cpu_count w \<le> int (length archives)"
    by (auto simp: effective_max_workers_def)
  show "hd (snd (process_archives w archives completed None))
     = InfoUsingProcesses (min (cpu_count w) (int (length archives))) (length archives)"
    by (simp add: process_archives_def collect_loop_concat effective_max_workers_def Let_def)
qed

section \<open>Independence of pool size and completion order\<close>




end
